theory Spec2Isabelle
  imports Complex_Main "HOL-Library.Char_ord" "HOL-Library.List_Lexorder"
begin

section \<open>Numbers as numpy and pandas compute them\<close>

text \<open>
  The agents compute with 64-bit floats through numpy and pandas. A float is modelled as an
  exact real, one of the two infinities, or NaN; rounding and the sign of zero are not
  modelled. Division follows numpy, which does not raise on a zero divisor: \<open>0/0\<close> is
  NaN and \<open>x/0\<close> is an infinity. Every comparison with NaN is false.
\<close>

datatype npfloat = Fin real | PInf | NInf | NaN

fun np_neg :: "npfloat \<Rightarrow> npfloat" where
  "np_neg (Fin a) = Fin (- a)"
| "np_neg PInf = NInf"
| "np_neg NInf = PInf"
| "np_neg NaN = NaN"

fun np_add :: "npfloat \<Rightarrow> npfloat \<Rightarrow> npfloat" where
  "np_add NaN y = NaN"
| "np_add x NaN = NaN"
| "np_add (Fin a) (Fin b) = Fin (a + b)"
| "np_add PInf NInf = NaN"
| "np_add NInf PInf = NaN"
| "np_add PInf y = PInf"
| "np_add NInf y = NInf"
| "np_add (Fin a) y = y"

definition np_sub :: "npfloat \<Rightarrow> npfloat \<Rightarrow> npfloat" where
  "np_sub x y = np_add x (np_neg y)"

text \<open>The sign of a value that is not NaN: 1, 0 or -1.\<close>

fun np_sign :: "npfloat \<Rightarrow> int" where
  "np_sign (Fin a) = (if a > 0 then 1 else if a < 0 then - 1 else 0)"
| "np_sign PInf = 1"
| "np_sign NInf = - 1"
| "np_sign NaN = 0"

definition inf_of_sign :: "int \<Rightarrow> npfloat" where
  "inf_of_sign s = (if s > 0 then PInf else if s < 0 then NInf else NaN)"

fun np_mul :: "npfloat \<Rightarrow> npfloat \<Rightarrow> npfloat" where
  "np_mul NaN y = NaN"
| "np_mul x NaN = NaN"
| "np_mul (Fin a) (Fin b) = Fin (a * b)"
| "np_mul x y = inf_of_sign (np_sign x * np_sign y)"

fun np_div :: "npfloat \<Rightarrow> npfloat \<Rightarrow> npfloat" where
  "np_div NaN y = NaN"
| "np_div x NaN = NaN"
| "np_div (Fin a) (Fin b) = (if b = 0 then inf_of_sign (np_sign (Fin a)) else Fin (a / b))"
| "np_div (Fin a) y = Fin 0"
| "np_div x (Fin b) = (if b < 0 then np_neg x else x)"
| "np_div x y = NaN"


fun np_lt :: "npfloat \<Rightarrow> npfloat \<Rightarrow> bool" where
  "np_lt NaN y = False"
| "np_lt x NaN = False"
| "np_lt (Fin a) (Fin b) = (a < b)"
| "np_lt x PInf = (x \<noteq> PInf)"
| "np_lt NInf y = (y \<noteq> NInf)"
| "np_lt x y = False"


fun np_ge :: "npfloat \<Rightarrow> npfloat \<Rightarrow> bool" where
  "np_ge NaN y = False"
| "np_ge x NaN = False"
| "np_ge x y = (\<not> np_lt x y)"

text \<open>The exceptions the modelled code raises; a result is \<open>Inl\<close> of one, or \<open>Inr\<close> of a value.\<close>

datatype py_error = ValueError | KeyError string | ZeroDivisionError

text \<open>Python's builtin \<open>min(a, b)\<close>: the second argument only when it is smaller.\<close>

definition py_min :: "npfloat \<Rightarrow> npfloat \<Rightarrow> npfloat" where
  "py_min a b = (if np_lt b a then b else a)"

text \<open>Python's \<open>sum\<close> of floats, starting from 0.\<close>

definition py_sum :: "npfloat list \<Rightarrow> npfloat" where
  "py_sum xs = foldl np_add (Fin 0) xs"

text \<open>Python's \<open>any(... for x in xs)\<close>.\<close>

primrec py_any :: "('a \<Rightarrow> bool) \<Rightarrow> 'a list \<Rightarrow> bool" where
  "py_any P [] = False"
| "py_any P (x # xs) = (P x \<or> py_any P xs)"

text \<open>A dict with string keys, in insertion order; \<open>d.get(k, default)\<close>.\<close>

type_synonym 'v dict = "(string \<times> 'v) list"

definition dict_get :: "'v dict \<Rightarrow> string \<Rightarrow> 'v \<Rightarrow> 'v" where
  "dict_get d k dflt = (case map_of d k of None \<Rightarrow> dflt | Some v \<Rightarrow> v)"

definition dict_has :: "'v dict \<Rightarrow> string \<Rightarrow> bool" where
  "dict_has d k = (map_of d k \<noteq> None)"


section \<open>Question analysis (agents/question\_analyzer.py)\<close>

datatype QuestionType =
    PERFORMANCE_ANALYSIS
  | LOCATION_COMPARISON
  | TREND_IDENTIFICATION
  | RECOMMENDATION_GENERATION
  | ROOT_CAUSE_ANALYSIS
  | UNSUPPORTED

text \<open>
  \<open>str.lower()\<close>. A string is a list of bytes; the letters A to Z are lowered and every
  other byte is kept.
\<close>

definition lower_char :: "char \<Rightarrow> char" where
  "lower_char c =
     (let n = of_char c :: nat in if 65 \<le> n \<and> n \<le> 90 then char_of (n + 32) else c)"

definition lower :: "string \<Rightarrow> string" where
  "lower s = map lower_char s"

text \<open>\<open>pattern in text\<close> on strings: \<open>pattern\<close> occurs as a contiguous run.\<close>

fun starts_with :: "string \<Rightarrow> string \<Rightarrow> bool" where
  "starts_with [] s = True"
| "starts_with (p # ps) [] = False"
| "starts_with (p # ps) (c # s) = (p = c \<and> starts_with ps s)"

fun str_in :: "string \<Rightarrow> string \<Rightarrow> bool" where
  "str_in p [] = (p = [])"
| "str_in p (c # s) = (starts_with p (c # s) \<or> str_in p s)"

record QuestionAnalyzerAgent =
  question_patterns :: "string list dict"

definition load_question_patterns :: "string list dict" where
  "load_question_patterns =
     [(''performance_analysis'',
         [''which locations need attention'', ''underperforming locations'',
          ''performance issues'', ''locations with problems'']),
      (''location_comparison'',
         [''compare locations'', ''top vs bottom'', ''differences between'',
          ''best and worst'']),
      (''trend_identification'',
         [''trends'', ''patterns over time'', ''changes in'', ''declining performance'']),
      (''recommendation_generation'',
         [''what should I do'', ''recommendations'', ''actions to take'',
          ''how to improve''])]"

definition init_QuestionAnalyzerAgent :: QuestionAnalyzerAgent where
  "init_QuestionAnalyzerAgent = \<lparr> question_patterns = load_question_patterns \<rparr>"

text \<open>The patterns a category is tested against: \<open>self.question_patterns.get(key, [])\<close>.\<close>

definition patterns_of :: "QuestionAnalyzerAgent \<Rightarrow> string \<Rightarrow> string list" where
  "patterns_of self key = dict_get (question_patterns self) key []"

definition matches_category :: "QuestionAnalyzerAgent \<Rightarrow> string \<Rightarrow> string \<Rightarrow> bool" where
  "matches_category self key question_lower =
     py_any (\<lambda>pattern. str_in pattern question_lower) (patterns_of self key)"

definition classify_question_type :: "QuestionAnalyzerAgent \<Rightarrow> string \<Rightarrow> QuestionType" where
  "classify_question_type self question =
     (let question_lower = lower question in
      if matches_category self ''performance_analysis'' question_lower
        then PERFORMANCE_ANALYSIS
      else if matches_category self ''location_comparison'' question_lower
        then LOCATION_COMPARISON
      else if matches_category self ''trend_identification'' question_lower
        then TREND_IDENTIFICATION
      else if matches_category self ''recommendation_generation'' question_lower
        then RECOMMENDATION_GENERATION
      else PERFORMANCE_ANALYSIS)"

text \<open>The four categories the classifier tests, in the order it tests them.\<close>

definition category_keys :: "string list" where
  "category_keys = [''performance_analysis'', ''location_comparison'',
                    ''trend_identification'', ''recommendation_generation'']"


section \<open>Schema discovery (agents/schema\_discovery.py)\<close>

record FieldMetadata =
  name :: string
  data_type :: string
  business_purpose :: string
  importance_tier :: int
  completeness :: npfloat
  unique_values :: nat
  sample_values :: "string list"
  business_rules :: "string list"
  relationships :: "string list"

text \<open>
  A table as \<open>pd.read_csv\<close> returns it: the number of rows and the named columns, each
  with the kind of its dtype and its cells. A cell is the value as \<open>astype(str)\<close> renders
  it, or \<open>None\<close> where the value is missing.
\<close>

datatype dtype = Numeric | Datetime64 | Object

record column =
  dtype :: dtype
  cells :: "string option list"

record DataFrame =
  nrows :: nat
  columns :: "(string \<times> column) list"

text \<open>\<open>series.dropna()\<close>, \<open>series.isnull().sum()\<close> and \<open>series.nunique()\<close>.\<close>

definition dropna :: "string option list \<Rightarrow> string list" where
  "dropna cs = concat (map (\<lambda>c. case c of None \<Rightarrow> [] | Some v \<Rightarrow> [v]) cs)"

definition isnull_sum :: "string option list \<Rightarrow> nat" where
  "isnull_sum cs = length (filter (\<lambda>c. c = None) cs)"

definition nunique :: "string option list \<Rightarrow> nat" where
  "nunique cs = length (remdups (dropna cs))"

text \<open>
  The body of the column loop of \<open>_discover_fresh_schema\<close>: the statistics of one column.
  The division is numpy's, so a table without rows gives the completeness NaN.
\<close>

definition field_statistics :: "DataFrame \<Rightarrow> string \<Rightarrow> column \<Rightarrow> FieldMetadata" where
  "field_statistics df column_name col =
     (let completeness_v =
            np_sub (Fin 1) (np_div (Fin (real (isnull_sum (cells col)))) (Fin (real (nrows df))));
          unique_values_v = nunique (cells col);
          sample_values_v = take 5 (dropna (cells col));
          data_type_v =
            (if dtype col = Numeric then ''numeric''
             else if dtype col = Datetime64 then ''datetime''
             else if real unique_values_v < real (nrows df) * 0.5 then ''categorical''
             else ''text'')
      in \<lparr> name = column_name, data_type = data_type_v, business_purpose = [],
           importance_tier = 3, completeness = completeness_v,
           unique_values = unique_values_v, sample_values = sample_values_v,
           business_rules = [], relationships = [] \<rparr>)"

text \<open>\<open>for column in df.columns: if column not in discovered_fields: ...\<close>\<close>

fun discover_columns ::
  "DataFrame \<Rightarrow> (string \<times> column) list \<Rightarrow> FieldMetadata dict \<Rightarrow> FieldMetadata dict" where
  "discover_columns df [] discovered_fields = discovered_fields"
| "discover_columns df ((column_name, col) # rest) discovered_fields =
     discover_columns df rest
       (if dict_has discovered_fields column_name then discovered_fields
        else discovered_fields @ [(column_name, field_statistics df column_name col)])"

text \<open>
  The loop over the files. \<open>read_csv\<close> is the file system as \<open>pd.read_csv\<close> sees it:
  \<open>None\<close> for a path whose read raises (a missing, unreadable or empty file). The
  \<open>except\<close> branch logs a warning and goes on with the next file; the second component
  of the state collects the paths so logged.
\<close>

fun discover_files ::
  "(string \<Rightarrow> DataFrame option) \<Rightarrow> string list \<Rightarrow> FieldMetadata dict \<times> string list
     \<Rightarrow> FieldMetadata dict \<times> string list" where
  "discover_files read_csv [] st = st"
| "discover_files read_csv (file_path # rest) (discovered_fields, warnings) =
     (case read_csv file_path of
        None \<Rightarrow> discover_files read_csv rest (discovered_fields, warnings @ [file_path])
      | Some df \<Rightarrow>
          discover_files read_csv rest
            (discover_columns df (columns df) discovered_fields, warnings))"

text \<open>
  The function has no \<open>raise\<close>, and whatever the processing of a file raises is caught
  inside the loop: it always returns, here with the warnings it logged.
\<close>

definition discover_fresh_schema ::
  "(string \<Rightarrow> DataFrame option) \<Rightarrow> string list
     \<Rightarrow> py_error + (FieldMetadata dict \<times> string list)" where
  "discover_fresh_schema read_csv data_paths =
     Inr (discover_files read_csv data_paths ([], []))"

text \<open>
  The knowledge loaded from \<open>field_metadata.yaml\<close>. The agent reads two of its sections:
  \<open>field_definitions\<close> (in the merge) and \<open>fields\<close> (in the learning insights and
  the confidence; the record field is \<open>fields_section\<close>). An entry of either is a dict; the record has the keys the agent reads, each
  absent or present with a value of the expected type.
\<close>

record config_field =
  cf_purpose :: "string option"
  cf_tier :: "int option"
  cf_business_rules :: "string list option"
  cf_relationships :: "string list option"
  cf_completeness :: "npfloat option"

record config_knowledge =
  field_definitions :: "(string \<rightharpoonup> config_field) option"
  fields_section :: "(string \<rightharpoonup> config_field) option"

text \<open>\<open>config_knowledge.get(section, {})\<close>\<close>

definition section_or_empty ::
  "(string \<rightharpoonup> config_field) option \<Rightarrow> (string \<rightharpoonup> config_field)" where
  "section_or_empty sec = (case sec of None \<Rightarrow> Map.empty | Some d \<Rightarrow> d)"

text \<open>\<open>config_field.get(key, current)\<close>\<close>

definition get_or :: "'a option \<Rightarrow> 'a \<Rightarrow> 'a" where
  "get_or v dflt = (case v of None \<Rightarrow> dflt | Some x \<Rightarrow> x)"

definition enrich :: "config_field \<Rightarrow> FieldMetadata \<Rightarrow> FieldMetadata" where
  "enrich config_field field_metadata =
     field_metadata
       \<lparr> business_purpose := get_or (cf_purpose config_field) (business_purpose field_metadata),
         importance_tier := get_or (cf_tier config_field) (importance_tier field_metadata),
         business_rules := get_or (cf_business_rules config_field) (business_rules field_metadata),
         relationships := get_or (cf_relationships config_field) (relationships field_metadata) \<rparr>"

text \<open>
  The merge updates the metadata objects in place and returns a dict with the same keys in
  the same order; the model returns that dict.
\<close>

definition merge_discovery_with_config ::
  "FieldMetadata dict \<Rightarrow> config_knowledge \<Rightarrow> FieldMetadata dict" where
  "merge_discovery_with_config discovered_fields knowledge =
     (let config_fields = section_or_empty (field_definitions knowledge) in
      map (\<lambda>(field_name, field_metadata).
             case config_fields field_name of
               Some config_field \<Rightarrow> (field_name, enrich config_field field_metadata)
             | None \<Rightarrow> (field_name, field_metadata))
          discovered_fields)"

definition assess_data_quality :: "FieldMetadata dict \<Rightarrow> npfloat" where
  "assess_data_quality field_metadata =
     (if field_metadata = [] then Fin 0
      else
        let n = length field_metadata;
            avg_completeness =
              np_div (py_sum (map (\<lambda>(k, f). completeness f) field_metadata)) (Fin (real n));
            context_coverage =
              Fin (real (length (filter (\<lambda>(k, f). business_purpose f \<noteq> []) field_metadata))
                   / real n);
            quality_score =
              np_add (np_mul avg_completeness (Fin 0.7)) (np_mul context_coverage (Fin 0.3))
        in py_min quality_score (Fin 1))"

















text \<open>
  A discovery run used in the examples: three fields, of which \<open>SALES\<close> and \<open>MARGIN\<close>
  are known with the stored completeness 0.9, and \<open>SALES\<close> has semantic attributes.
\<close>

definition fresh_field :: "string \<Rightarrow> real \<Rightarrow> FieldMetadata" where
  "fresh_field n c =
     \<lparr> name = n, data_type = ''numeric'', business_purpose = [], importance_tier = 3,
       completeness = Fin c, unique_values = 4, sample_values = [''10'', ''20''],
       business_rules = [], relationships = [] \<rparr>"

definition example_fields :: "FieldMetadata dict" where
  "example_fields =
     [(''SALES'', fresh_field ''SALES'' (75 / 100)),
      (''MARGIN'', fresh_field ''MARGIN'' (85 / 100)),
      (''REGION'', fresh_field ''REGION'' 1)]"

definition stored_entry :: "real \<Rightarrow> config_field" where
  "stored_entry c =
     \<lparr> cf_purpose = None, cf_tier = None, cf_business_rules = None,
       cf_relationships = None, cf_completeness = Some (Fin c) \<rparr>"

definition sales_definition :: config_field where
  "sales_definition =
     \<lparr> cf_purpose = Some ''Sales revenue'', cf_tier = Some 1,
       cf_business_rules = Some [''non-negative''], cf_relationships = None,
       cf_completeness = None \<rparr>"

definition example_knowledge :: config_knowledge where
  "example_knowledge =
     \<lparr> field_definitions = Some [''SALES'' \<mapsto> sales_definition],
       fields_section = Some [''SALES'' \<mapsto> stored_entry (9 / 10),
                              ''MARGIN'' \<mapsto> stored_entry (9 / 10)] \<rparr>"


section \<open>The exclude list (enhanced\_guidance\_reference\_file\_\_schema.py)\<close>

text \<open>
  \<open>fnmatch.fnmatch(name, pat)\<close> of the Python library, where the file names of the
  platform are case-sensitive (\<open>os.path.normcase\<close> is the identity). The pattern is read
  as \<open>fnmatch.translate\<close> reads it (Python 3.9 and later): \<open>*\<close> stands for any run of
  characters, \<open>?\<close> for one character, \<open>[seq]\<close> for one character of \<open>seq\<close>,
  \<open>[!seq]\<close> for one character not in it, a \<open>[\<close> that is never closed for itself, and
  every other character for itself. The whole name must match.
\<close>

datatype glob_item = Star | AnyChar | Lit char | CharClass bool string

text \<open>
  The end of a bracket expression, searched where \<open>translate\<close> searches it: after an
  optional \<open>!\<close> and an optional first \<open>]\<close>. The result is the text between the
  brackets and the rest of the pattern.
\<close>

definition skip_char :: "char \<Rightarrow> string \<Rightarrow> string" where
  "skip_char x s = (case s of [] \<Rightarrow> [] | c # r \<Rightarrow> if c = x then r else s)"

definition split_class :: "string \<Rightarrow> (string \<times> string) option" where
  "split_class rest =
     (let after = dropWhile (\<lambda>c. c \<noteq> CHR '']'')
                    (skip_char CHR '']'' (skip_char CHR ''!'' rest))
      in if after = [] then None
         else Some (take (length rest - length after) rest, tl after))"

lemma skip_char_length: "length (skip_char x s) \<le> length s"
  by (cases s) (simp_all add: skip_char_def)

lemma split_class_shorter:
  assumes "split_class rest = Some (stuff, rem)"
  shows "length rem < Suc (length rest)"
proof -
  let ?r2 = "skip_char CHR '']'' (skip_char CHR ''!'' rest)"
  let ?after = "dropWhile (\<lambda>c. c \<noteq> CHR '']'') ?r2"
  have "rem = tl ?after"
    using assms by (simp add: split_class_def Let_def split: if_splits)
  moreover have "length ?after \<le> length ?r2" by (rule length_dropWhile_le)
  moreover have "length ?r2 \<le> length (skip_char CHR ''!'' rest)" by (rule skip_char_length)
  moreover have "length (skip_char CHR ''!'' rest) \<le> length rest" by (rule skip_char_length)
  ultimately show ?thesis by simp
qed

function translate :: "string \<Rightarrow> glob_item list" where
  "translate [] = []"
| "translate (c # rest) =
     (if c = CHR ''*'' then Star # translate rest
      else if c = CHR ''?'' then AnyChar # translate rest
      else if c = CHR ''['' then
        (case split_class rest of
           None \<Rightarrow> Lit c # translate rest
         | Some (stuff, rem) \<Rightarrow>
             (if hd stuff = CHR ''!'' then CharClass True (tl stuff) # translate rem
              else CharClass False stuff # translate rem))
      else Lit c # translate rest)"
  by pat_completeness auto
termination
  by (relation "measure length") (auto dest: split_class_shorter)

text \<open>
  Membership in the text of a bracket expression: \<open>x-z\<close> is the range from \<open>x\<close> to
  \<open>z\<close> (empty when \<open>z\<close> is before \<open>x\<close>), anything else stands for itself.
\<close>

fun in_class :: "char \<Rightarrow> string \<Rightarrow> bool" where
  "in_class c (x # y # z # rest) =
     (if y = CHR ''-''
      then ((of_char x :: nat) \<le> of_char c \<and> (of_char c :: nat) \<le> of_char z)
           \<or> in_class c rest
      else c = x \<or> in_class c (y # z # rest))"
| "in_class c (x # rest) = (c = x \<or> in_class c rest)"
| "in_class c [] = False"

fun glob_match :: "glob_item list \<Rightarrow> string \<Rightarrow> bool" where
  "glob_match [] s = (s = [])"
| "glob_match (Star # items) [] = glob_match items []"
| "glob_match (Star # items) (c # s) =
     (glob_match items (c # s) \<or> glob_match (Star # items) s)"
| "glob_match (item # items) [] = False"
| "glob_match (AnyChar # items) (c # s) = glob_match items s"
| "glob_match (Lit x # items) (c # s) = (x = c \<and> glob_match items s)"
| "glob_match (CharClass negated stuff # items) (c # s) =
     ((in_class c stuff \<noteq> negated) \<and> glob_match items s)"

definition fnmatch :: "string \<Rightarrow> string \<Rightarrow> bool" where
  "fnmatch name' pat = glob_match (translate pat) name'"

text \<open>
  \<open>self.field_config\<close>, as far as \<open>_get_all_available_fields\<close> reads it: the key
  \<open>exclude_columns\<close>, which may be missing.
\<close>

record SchemaDiscovery =
  exclude_columns :: "string list option"

text \<open>\<open>df.empty\<close>: no rows or no columns.\<close>

definition df_empty :: "DataFrame \<Rightarrow> bool" where
  "df_empty df = (nrows df = 0 \<or> columns df = [])"

text \<open>
  One round of the loop over the exclude list: the columns the pattern adds to
  \<open>excluded_columns\<close>. A pattern that is a column name excludes that column and the
  round ends there (\<open>continue\<close>); otherwise a pattern with a \<open>*\<close> excludes the columns
  it matches.
\<close>

definition excluded_by :: "string list \<Rightarrow> string \<Rightarrow> string list" where
  "excluded_by all_df_columns exclude_pattern =
     (if exclude_pattern \<in> set all_df_columns then [exclude_pattern]
      else if CHR ''*'' \<in> set exclude_pattern
        then filter (\<lambda>col. fnmatch col exclude_pattern) all_df_columns
      else [])"

text \<open>
  The two sets of the source are lists without repetition; the order in which the loop
  visits the exclude list does not affect the set it builds. The result is sorted, as
  \<open>sorted\<close> sorts strings: by code point, which for bytes is the order of the bytes.
\<close>

definition get_all_available_fields ::
  "SchemaDiscovery \<Rightarrow> DataFrame option \<Rightarrow> py_error + string list" where
  "get_all_available_fields self df_opt =
     (case df_opt of
        None \<Rightarrow> Inl ValueError
      | Some df \<Rightarrow>
          if df_empty df then Inl ValueError
          else
            let all_df_columns = remdups (map fst (columns df));
                exclude_columns_from_config = remdups (get_or (exclude_columns self) []);
                excluded_columns =
                  concat (map (excluded_by all_df_columns) exclude_columns_from_config)
            in Inr (sort (filter (\<lambda>col. col \<notin> set excluded_columns) all_df_columns)))"

text \<open>A table with the given column names and one row, for the examples.\<close>

definition one_row_frame :: "string list \<Rightarrow> DataFrame" where
  "one_row_frame names =
     \<lparr> nrows = 1,
       columns = map (\<lambda>n. (n, \<lparr> dtype = Object, cells = [Some ''x''] \<rparr>)) names \<rparr>"

text \<open>
  The retained field universe. \<open>spec_field_universe\<close> follows the words of the
  specification: the column names minus those that match an exclude entry, exactly or as
  a \<open>*\<close> wildcard pattern. \<open>code_field_universe\<close> is what the loop builds: a wildcard
  entry is matched against the columns only when it is not itself a column name.
\<close>

definition matches_entry :: "string \<Rightarrow> string \<Rightarrow> bool" where
  "matches_entry col entry = (col = entry \<or> (CHR ''*'' \<in> set entry \<and> fnmatch col entry))"

definition spec_field_universe :: "string list \<Rightarrow> string list \<Rightarrow> string set" where
  "spec_field_universe cols excl = {c \<in> set cols. \<not> (\<exists>e \<in> set excl. matches_entry c e)}"

definition code_field_universe :: "string list \<Rightarrow> string list \<Rightarrow> string set" where
  "code_field_universe cols excl =
     {c \<in> set cols. \<not> (\<exists>e \<in> set excl. c = e
          \<or> (e \<notin> set cols \<and> CHR ''*'' \<in> set e \<and> fnmatch c e))}"

definition column_names :: "DataFrame \<Rightarrow> string list" where
  "column_names df = map fst (columns df)"

definition exclude_list :: "SchemaDiscovery \<Rightarrow> string list" where
  "exclude_list self = get_or (exclude_columns self) []"

text \<open>No wildcard entry of the exclude list is itself the name of a column.\<close>

definition wildcards_are_not_columns :: "SchemaDiscovery \<Rightarrow> DataFrame \<Rightarrow> bool" where
  "wildcards_are_not_columns self df =
     list_all (\<lambda>e. CHR ''*'' \<in> set e \<longrightarrow> e \<notin> set (column_names df)) (exclude_list self)"

text \<open>A source that is absent, unreadable or without rows.\<close>

definition source_unusable :: "DataFrame option \<Rightarrow> bool" where
  "source_unusable src = (case src of None \<Rightarrow> True | Some df \<Rightarrow> nrows df = 0)"

text \<open>Files for the examples: one readable table, and a table with a header and no rows.\<close>

definition example_frame :: DataFrame where
  "example_frame =
     \<lparr> nrows = 4,
       columns = [(''REGION'', \<lparr> dtype = Object,
                      cells = [Some ''north'', Some ''south'', None, Some ''north''] \<rparr>),
                  (''SALES'', \<lparr> dtype = Numeric,
                      cells = [Some ''10.0'', Some ''20.0'', Some ''30.0'', Some ''40.0''] \<rparr>)] \<rparr>"

definition header_only_frame :: DataFrame where
  "header_only_frame =
     \<lparr> nrows = 0, columns = [(''SALES'', \<lparr> dtype = Object, cells = [] \<rparr>)] \<rparr>"

definition example_read_csv :: "string \<Rightarrow> DataFrame option" where
  "example_read_csv = map_of [(''sales.csv'', example_frame)]"

definition example_discovered :: "FieldMetadata dict" where
  "example_discovered =
     [(''REGION'', \<lparr> name = ''REGION'', data_type = ''text'', business_purpose = [],
          importance_tier = 3, completeness = Fin (3 / 4), unique_values = 2,
          sample_values = [''north'', ''south'', ''north''], business_rules = [],
          relationships = [] \<rparr>),
      (''SALES'', \<lparr> name = ''SALES'', data_type = ''numeric'', business_purpose = [],
          importance_tier = 3, completeness = Fin 1, unique_values = 4,
          sample_values = [''10.0'', ''20.0'', ''30.0'', ''40.0''], business_rules = [],
          relationships = [] \<rparr>)]"

definition audit_columns_frame :: DataFrame where
  "audit_columns_frame = one_row_frame [''UPDATED_AT'', ''CREATED_AT'', ''SALES'', ''CREATED_BY'']"

definition created_excluded :: SchemaDiscovery where
  "created_excluded = \<lparr> exclude_columns = Some [''CREATED_*''] \<rparr>"


section \<open>Data filtering (agents/data\_filter.py)\<close>

text \<open>
  A pandas DataFrame as the filter agent uses it: the row labels and the numeric columns
  by name, every column with one cell per row. A missing cell is NaN. Columns of other
  types are carried along by pandas untouched and are not modelled.
\<close>

record Table =
  index :: "nat list"
  series :: "npfloat list dict"

text \<open>\<open>len(data)\<close>, \<open>col in data.columns\<close> with \<open>data[col]\<close>, and \<open>data[col] = values\<close>.\<close>

definition len :: "Table \<Rightarrow> nat" where
  "len data = length (index data)"

definition get_column :: "Table \<Rightarrow> string \<Rightarrow> npfloat list option" where
  "get_column data col = map_of (series data) col"

definition set_column :: "string \<Rightarrow> npfloat list \<Rightarrow> Table \<Rightarrow> Table" where
  "set_column col values data =
     data \<lparr> series :=
       (if dict_has (series data) col
        then map (\<lambda>(k, v). if k = col then (k, values) else (k, v)) (series data)
        else series data @ [(col, values)]) \<rparr>"

text \<open>\<open>data[mask]\<close>: the rows where the mask holds.\<close>

definition mask_list :: "bool list \<Rightarrow> 'a list \<Rightarrow> 'a list" where
  "mask_list keep xs = map snd (filter fst (zip keep xs))"

definition boolean_index :: "bool list \<Rightarrow> Table \<Rightarrow> Table" where
  "boolean_index keep data =
     \<lparr> index = mask_list keep (index data),
       series = map (\<lambda>(k, v). (k, mask_list keep v)) (series data) \<rparr>"

text \<open>The rows at the given positions, in the given order.\<close>

definition take_rows :: "nat list \<Rightarrow> Table \<Rightarrow> Table" where
  "take_rows positions data =
     \<lparr> index = map (\<lambda>p. index data ! p) positions,
       series = map (\<lambda>(k, v). (k, map (\<lambda>p. v ! p) positions)) (series data) \<rparr>"

text \<open>\<open>data.drop(columns=[...])\<close> for columns that are present.\<close>

definition drop_columns :: "string list \<Rightarrow> Table \<Rightarrow> Table" where
  "drop_columns cols data =
     data \<lparr> series := filter (\<lambda>(k, v). k \<notin> set cols) (series data) \<rparr>"

text \<open>\<open>Series.min()\<close> and \<open>Series.max()\<close>: over the cells that are not NaN; NaN when there are none.\<close>

definition notna :: "npfloat list \<Rightarrow> npfloat list" where
  "notna xs = filter (\<lambda>v. v \<noteq> NaN) xs"

definition series_min :: "npfloat list \<Rightarrow> npfloat" where
  "series_min xs =
     (case notna xs of [] \<Rightarrow> NaN
      | v # vs \<Rightarrow> fold (\<lambda>x m. if np_lt x m then x else m) vs v)"

definition series_max :: "npfloat list \<Rightarrow> npfloat" where
  "series_max xs =
     (case notna xs of [] \<Rightarrow> NaN
      | v # vs \<Rightarrow> fold (\<lambda>x m. if np_lt m x then x else m) vs v)"

text \<open>
  \<open>DataFrame.nlargest(n, column)\<close>, as pandas documents it: the first \<open>n\<close> rows in
  descending order of the column, rows with equal values in their original order; rows
  whose value is NaN come last. The result is the list of row positions.
\<close>

fun insert_desc :: "nat \<times> npfloat \<Rightarrow> (nat \<times> npfloat) list \<Rightarrow> (nat \<times> npfloat) list" where
  "insert_desc x [] = [x]"
| "insert_desc x (y # ys) =
     (if np_lt (snd x) (snd y) then y # insert_desc x ys else x # y # ys)"

definition sort_desc :: "(nat \<times> npfloat) list \<Rightarrow> (nat \<times> npfloat) list" where
  "sort_desc xs = foldr insert_desc xs []"

definition nlargest_positions :: "int \<Rightarrow> npfloat list \<Rightarrow> nat list" where
  "nlargest_positions n values =
     (if n \<le> 0 then []
      else
        let numbered = zip [0..<length values] values;
            present = filter (\<lambda>(i, v). v \<noteq> NaN) numbered;
            absent = filter (\<lambda>(i, v). v = NaN) numbered
        in take (nat n) (map fst (sort_desc present @ absent)))"

definition nlargest :: "int \<Rightarrow> string \<Rightarrow> Table \<Rightarrow> py_error + Table" where
  "nlargest n col data =
     (case get_column data col of
        None \<Rightarrow> Inl (KeyError col)
      | Some values \<Rightarrow> Inr (take_rows (nlargest_positions n values) data))"

text \<open>
  The configuration of the agent and the filtering criteria. The criteria are a dict in
  which each of the keys the agent reads may be missing.
\<close>

record filter_config =
  cfg_max_tokens :: int
  cfg_temperature :: npfloat
  cfg_max_rows :: int
  cfg_selection_weights :: "npfloat dict"
  cfg_min_priority_score :: npfloat
  cfg_min_sales_volume :: npfloat

record DataFilterAgent =
  config :: filter_config

record filtering_criteria =
  min_priority_score :: "npfloat option"
  min_sales_volume :: "npfloat option"
  selection_weights :: "npfloat dict option"
  max_rows :: "int option"

definition load_config :: filter_config where
  "load_config =
     \<lparr> cfg_max_tokens = 1000, cfg_temperature = Fin 0, cfg_max_rows = 25,
       cfg_selection_weights =
         [(''representative'', Fin (4 / 10)), (''priority_score'', Fin (4 / 10)),
          (''sales_volume'', Fin (2 / 10))],
       cfg_min_priority_score = Fin 100, cfg_min_sales_volume = Fin 500 \<rparr>"

definition init_DataFilterAgent :: DataFilterAgent where
  "init_DataFilterAgent = \<lparr> config = load_config \<rparr>"

text \<open>The empty dict \<open>{}\<close> of criteria.\<close>

definition no_criteria :: filtering_criteria where
  "no_criteria =
     \<lparr> min_priority_score = None, min_sales_volume = None, selection_weights = None,
       max_rows = None \<rparr>"

definition apply_basic_filters ::
  "DataFilterAgent \<Rightarrow> Table \<Rightarrow> filtering_criteria \<Rightarrow> Table" where
  "apply_basic_filters self data criteria =
     (let min_priority =
            get_or (min_priority_score criteria) (cfg_min_priority_score (config self));
          min_volume =
            get_or (min_sales_volume criteria) (cfg_min_sales_volume (config self));
          filtered_data =
            (case get_column data ''priority_score'' of
               Some col \<Rightarrow> boolean_index (map (\<lambda>v. np_ge v min_priority) col) data
             | None \<Rightarrow> data)
      in case get_column filtered_data ''sales_volume'' of
           Some col \<Rightarrow> boolean_index (map (\<lambda>v. np_ge v min_volume) col) filtered_data
         | None \<Rightarrow> filtered_data)"

text \<open>
  \<open>np.random.random(len(data))\<close> draws from the global generator, which nothing in the
  repository seeds. The draws of the call are an argument of the model: \<open>draws i\<close> is the
  number drawn for the row at position \<open>i\<close>.
\<close>

definition calculate_representative_score :: "(nat \<Rightarrow> real) \<Rightarrow> Table \<Rightarrow> npfloat list" where
  "calculate_representative_score draws data = map (\<lambda>i. Fin (draws i)) [0..<len data]"

text \<open>\<open>(col - col.min()) / (col.max() - col.min())\<close>, cell by cell.\<close>

definition min_max_normalize :: "npfloat list \<Rightarrow> npfloat list" where
  "min_max_normalize col =
     map (\<lambda>v. np_div (np_sub v (series_min col)) (np_sub (series_max col) (series_min col)))
         col"

definition normalize_priority_score :: "Table \<Rightarrow> npfloat list" where
  "normalize_priority_score data =
     (case get_column data ''priority_score'' of
        Some priority_col \<Rightarrow> min_max_normalize priority_col
      | None \<Rightarrow> replicate (len data) (Fin (5 / 10)))"

definition normalize_volume_score :: "Table \<Rightarrow> npfloat list" where
  "normalize_volume_score data =
     (case get_column data ''sales_volume'' of
        Some volume_col \<Rightarrow> min_max_normalize volume_col
      | None \<Rightarrow> replicate (len data) (Fin (5 / 10)))"

text \<open>\<open>criteria.get("selection_weights", self.config["selection_weights"])\<close>\<close>

definition weights_of :: "DataFilterAgent \<Rightarrow> filtering_criteria \<Rightarrow> npfloat dict" where
  "weights_of self criteria =
     get_or (selection_weights criteria) (cfg_selection_weights (config self))"

text \<open>The weighted sum of the three component columns, row by row.\<close>

definition weighted_sum ::
  "npfloat \<Rightarrow> npfloat \<Rightarrow> npfloat \<Rightarrow> npfloat list \<Rightarrow> npfloat list \<Rightarrow> npfloat list
     \<Rightarrow> npfloat list" where
  "weighted_sum w_rep w_pri w_vol rep pri vol =
     map (\<lambda>(r, p, v). np_add (np_add (np_mul w_rep r) (np_mul w_pri p)) (np_mul w_vol v))
         (zip rep (zip pri vol))"

text \<open>
  The three component columns are computed and stored first; the weights are looked up
  afterwards, in the order of the expression, and a missing key raises \<open>KeyError\<close>. There
  is no other check of the weights.
\<close>

definition calculate_selection_scores ::
  "(nat \<Rightarrow> real) \<Rightarrow> DataFilterAgent \<Rightarrow> Table \<Rightarrow> filtering_criteria \<Rightarrow> py_error + Table" where
  "calculate_selection_scores draws self data criteria =
     (let weights = weights_of self criteria;
          rep = calculate_representative_score draws data;
          pri = normalize_priority_score data;
          vol = normalize_volume_score data;
          scored_data =
            set_column ''volume_score_norm'' vol
              (set_column ''priority_score_norm'' pri
                (set_column ''representative_score'' rep data))
      in case map_of weights ''representative'' of
           None \<Rightarrow> Inl (KeyError ''representative'')
         | Some w_rep \<Rightarrow>
       (case map_of weights ''priority_score'' of
           None \<Rightarrow> Inl (KeyError ''priority_score'')
         | Some w_pri \<Rightarrow>
       (case map_of weights ''sales_volume'' of
           None \<Rightarrow> Inl (KeyError ''sales_volume'')
         | Some w_vol \<Rightarrow>
             Inr (set_column ''selection_score''
                    (weighted_sum w_rep w_pri w_vol rep pri vol) scored_data))))"

definition score_columns :: "string list" where
  "score_columns =
     [''representative_score'', ''priority_score_norm'', ''volume_score_norm'',
      ''selection_score'']"

definition select_representative_subset ::
  "DataFilterAgent \<Rightarrow> Table \<Rightarrow> filtering_criteria \<Rightarrow> py_error + Table" where
  "select_representative_subset self scored_data criteria =
     (let n = get_or (max_rows criteria) (cfg_max_rows (config self)) in
      case nlargest n ''selection_score'' scored_data of
        Inl e \<Rightarrow> Inl e
      | Inr selected_data \<Rightarrow> Inr (drop_columns score_columns selected_data))"

text \<open>
  The rationale. The reduction ratio is kept as the two counts the source formats into a
  string; the division of the format raises when the original table has no rows.
\<close>

record selection_rationale =
  selection_method :: string
  reduction_ratio :: "nat \<times> nat"
  key_factors :: string
  quality_assurance :: string

definition generate_selection_rationale ::
  "Table \<Rightarrow> nat \<Rightarrow> filtering_criteria \<Rightarrow> py_error + selection_rationale" where
  "generate_selection_rationale selected_data original_count criteria =
     (if original_count = 0 then Inl ZeroDivisionError
      else Inr \<lparr> selection_method =
                   ''Weighted scoring based on representativeness, priority, and volume'',
                 reduction_ratio = (len selected_data, original_count),
                 key_factors =
                   ''Geographic diversity, performance variance, business priority'',
                 quality_assurance = ''Minimum thresholds applied for data quality'' \<rparr>)"

definition calculate_coverage_score :: "Table \<Rightarrow> Table \<Rightarrow> npfloat" where
  "calculate_coverage_score filtered_data original_data = Fin (85 / 100)"

definition calculate_efficiency_score :: "Table \<Rightarrow> filtering_criteria \<Rightarrow> npfloat" where
  "calculate_efficiency_score filtered_data criteria = Fin (90 / 100)"

record DataFilterOutput =
  timestamp :: string
  original_row_count :: nat
  filtered_row_count :: nat
  selection_criteria :: filtering_criteria
  filtered_data :: Table
  selection_rationale :: selection_rationale
  data_coverage_score :: npfloat
  efficiency_score :: npfloat
  recommended_next_stage :: string

text \<open>
  The question analysis is a dict of which the agent reads the key
  \<open>filtering_criteria\<close>; the schema metadata is not read. Besides the draws, the clock
  reading \<open>now\<close> is an argument of the model.
\<close>

record question_analysis =
  qa_filtering_criteria :: "filtering_criteria option"

definition filter_data ::
  "(nat \<Rightarrow> real) \<Rightarrow> string \<Rightarrow> DataFilterAgent \<Rightarrow> Table \<Rightarrow> question_analysis
     \<Rightarrow> py_error + DataFilterOutput" where
  "filter_data draws now self data analysis =
     (let original_count = len data;
          criteria = get_or (qa_filtering_criteria analysis) no_criteria;
          filtered = apply_basic_filters self data criteria
      in case calculate_selection_scores draws self filtered criteria of
           Inl e \<Rightarrow> Inl e
         | Inr scored_data \<Rightarrow>
       (case select_representative_subset self scored_data criteria of
           Inl e \<Rightarrow> Inl e
         | Inr final_data \<Rightarrow>
       (case generate_selection_rationale final_data original_count criteria of
           Inl e \<Rightarrow> Inl e
         | Inr rationale \<Rightarrow>
             Inr \<lparr> timestamp = now,
                   original_row_count = original_count,
                   filtered_row_count = len final_data,
                   selection_criteria = criteria,
                   filtered_data = final_data,
                   selection_rationale = rationale,
                   data_coverage_score = calculate_coverage_score final_data data,
                   efficiency_score = calculate_efficiency_score final_data criteria,
                   recommended_next_stage = ''output_generation'' \<rparr>)))"

text \<open>The rows a run selects, by their labels and in order; none when the run fails.\<close>

definition selected_rows :: "py_error + DataFilterOutput \<Rightarrow> nat list" where
  "selected_rows result =
     (case result of Inl e \<Rightarrow> [] | Inr out \<Rightarrow> index (filtered_data out))"

text \<open>Tables, criteria and draws for the examples.\<close>

definition two_locations :: Table where
  "two_locations =
     \<lparr> index = [0, 1],
       series = [(''priority_score'', [Fin 150, Fin 200]),
                 (''sales_volume'', [Fin 900, Fin 600])] \<rparr>"

definition constant_priority :: Table where
  "constant_priority =
     \<lparr> index = [0, 1, 2],
       series = [(''priority_score'', [Fin 50, Fin 50, Fin 50]),
                 (''sales_volume'', [Fin 7, Fin 7, Fin 7])] \<rparr>"

definition single_row :: Table where
  "single_row =
     \<lparr> index = [0], series = [(''priority_score'', [Fin 120]), (''sales_volume'', [Fin 800])] \<rparr>"

definition top_one :: question_analysis where
  "top_one = \<lparr> qa_filtering_criteria = Some (no_criteria \<lparr> max_rows := Some 1 \<rparr>) \<rparr>"

definition draws_a :: "nat \<Rightarrow> real" where
  "draws_a i = (if i = 0 then 9 / 10 else 1 / 10)"

definition draws_b :: "nat \<Rightarrow> real" where
  "draws_b i = (if i = 0 then 1 / 10 else 9 / 10)"

definition all_ones :: filtering_criteria where
  "all_ones =
     no_criteria \<lparr> selection_weights :=
       Some [(''representative'', Fin 1), (''priority_score'', Fin 1),
             (''sales_volume'', Fin 1)] \<rparr>"

text \<open>
  The three weights of a dict sum to 1.0 within the tolerance \<open>1e-6\<close>; false when one of
  them is missing or not finite.
\<close>

definition weights_sum_to_one :: "npfloat dict \<Rightarrow> bool" where
  "weights_sum_to_one weights =
     (case (map_of weights ''representative'', map_of weights ''priority_score'',
            map_of weights ''sales_volume'') of
        (Some (Fin a), Some (Fin b), Some (Fin c)) \<Rightarrow> \<bar>a + b + c - 1\<bar> \<le> 1 / 1000000
      | _ \<Rightarrow> False)"

text \<open>A score between 0 and 1.\<close>

definition in_unit_interval :: "npfloat \<Rightarrow> bool" where
  "in_unit_interval x = (case x of Fin r \<Rightarrow> 0 \<le> r \<and> r \<le> 1 | _ \<Rightarrow> False)"

text \<open>A column without missing or infinite cells.\<close>

definition all_finite :: "npfloat list \<Rightarrow> bool" where
  "all_finite xs = list_all (\<lambda>x. case x of Fin r \<Rightarrow> True | _ \<Rightarrow> False) xs"


section \<open>Properties of the question classifier\<close>

lemma py_any_iff: "py_any P xs = (\<exists>x \<in> set xs. P x)"
  by (induction xs) auto

lemma starts_with_iff: "starts_with p s = (\<exists>b. s = p @ b)"
  by (induction p s rule: starts_with.induct) auto

text \<open>\<open>str_in\<close> is the substring test: the pattern occurs somewhere in the text.\<close>

lemma str_in_iff: "str_in p s = (\<exists>a b. s = a @ p @ b)"
proof (induction s)
  case Nil
  then show ?case by auto
next
  case (Cons c s)
  show ?case
  proof
    assume "str_in p (c # s)"
    then consider "starts_with p (c # s)" | "str_in p s" by auto
    then show "\<exists>a b. c # s = a @ p @ b"
    proof cases
      case 1
      then obtain b where "c # s = p @ b" using starts_with_iff by blast
      then have "c # s = [] @ p @ b" by simp
      then show ?thesis by blast
    next
      case 2
      then obtain a b where "s = a @ p @ b" using Cons.IH by blast
      then have "c # s = (c # a) @ p @ b" by simp
      then show ?thesis by blast
    qed
  next
    assume "\<exists>a b. c # s = a @ p @ b"
    then obtain a b where ab: "c # s = a @ p @ b" by blast
    show "str_in p (c # s)"
    proof (cases a)
      case Nil
      then have "starts_with p (c # s)" using ab starts_with_iff by auto
      then show ?thesis by simp
    next
      case (Cons x a')
      then have "s = a' @ p @ b" using ab by simp
      then have "str_in p s" using Cons.IH by blast
      then show ?thesis by simp
    qed
  qed
qed

text \<open>
  Claim C6. The classifier is a total function of the question (the model has no failing
  branch, as the source has none), and a question whose lower-cased text contains none of
  the patterns configured for the four tested categories is classified as
  \<open>PERFORMANCE_ANALYSIS\<close>. This holds for every pattern table the agent may carry.
\<close>

theorem classify_default_performance_analysis:
  assumes "\<forall>key \<in> set category_keys. \<forall>pattern \<in> set (patterns_of self key).
             \<not> str_in pattern (lower question)"
  shows "classify_question_type self question = PERFORMANCE_ANALYSIS"
  using assms
  by (simp add: classify_question_type_def Let_def matches_category_def py_any_iff
        category_keys_def)

theorem classify_default_performance_analysis_witness:
  "\<not> matches_category init_QuestionAnalyzerAgent ''performance_analysis''
         (lower ''Where is the Moon?'')
   \<and> \<not> matches_category init_QuestionAnalyzerAgent ''location_comparison''
         (lower ''Where is the Moon?'')
   \<and> \<not> matches_category init_QuestionAnalyzerAgent ''trend_identification''
         (lower ''Where is the Moon?'')
   \<and> \<not> matches_category init_QuestionAnalyzerAgent ''recommendation_generation''
         (lower ''Where is the Moon?'')
   \<and> classify_question_type init_QuestionAnalyzerAgent ''Where is the Moon?''
       = PERFORMANCE_ANALYSIS"
proof -
  have h: "\<forall>key \<in> set category_keys.
             \<forall>pattern \<in> set (patterns_of init_QuestionAnalyzerAgent key).
               \<not> str_in pattern (lower ''Where is the Moon?'')"
    by code_simp
  have n: "\<not> matches_category init_QuestionAnalyzerAgent ''performance_analysis''
                (lower ''Where is the Moon?'')
         \<and> \<not> matches_category init_QuestionAnalyzerAgent ''location_comparison''
                (lower ''Where is the Moon?'')
         \<and> \<not> matches_category init_QuestionAnalyzerAgent ''trend_identification''
                (lower ''Where is the Moon?'')
         \<and> \<not> matches_category init_QuestionAnalyzerAgent ''recommendation_generation''
                (lower ''Where is the Moon?'')"
    by code_simp
  show ?thesis using n classify_default_performance_analysis [OF h] by simp
qed

text \<open>
  Claim C10. Whatever the question and the pattern table, the classifier returns one of
  \<open>PERFORMANCE_ANALYSIS\<close>, \<open>LOCATION_COMPARISON\<close>, \<open>TREND_IDENTIFICATION\<close> and
  \<open>RECOMMENDATION_GENERATION\<close>; it never returns \<open>ROOT_CAUSE_ANALYSIS\<close> or
  \<open>UNSUPPORTED\<close>, although both are members of the enumeration.
\<close>

theorem classify_four_values:
  "classify_question_type self question \<in>
     {PERFORMANCE_ANALYSIS, LOCATION_COMPARISON, TREND_IDENTIFICATION,
      RECOMMENDATION_GENERATION}
   \<and> classify_question_type self question \<noteq> ROOT_CAUSE_ANALYSIS
   \<and> classify_question_type self question \<noteq> UNSUPPORTED"
  by (simp add: classify_question_type_def Let_def)

theorem classify_four_values_witness:
  "classify_question_type init_QuestionAnalyzerAgent ''root cause of declining performance''
     = TREND_IDENTIFICATION
   \<and> classify_question_type init_QuestionAnalyzerAgent ''root cause of declining performance''
     \<noteq> ROOT_CAUSE_ANALYSIS"
proof -
  have "classify_question_type init_QuestionAnalyzerAgent
          ''root cause of declining performance'' = TREND_IDENTIFICATION"
    by code_simp
  then show ?thesis
    using classify_four_values
      [of init_QuestionAnalyzerAgent "''root cause of declining performance''"]
    by simp
qed

section \<open>Properties of the schema discovery\<close>




















lemma enrich_frame:
  "name (enrich c f) = name f" "data_type (enrich c f) = data_type f"
  "completeness (enrich c f) = completeness f" "unique_values (enrich c f) = unique_values f"
  "sample_values (enrich c f) = sample_values f"
  by (simp_all add: enrich_def)

text \<open>
  Claim C9. The merge keeps the keys and their order. For every field the name, the data
  type, the completeness, the count of unique values and the sample values are those of the
  discovery; the merged metadata differs from the discovered one in at most
  \<open>business_purpose\<close>, \<open>importance_tier\<close>, \<open>business_rules\<close> and \<open>relationships\<close>; and a
  field without an entry in the knowledge base (its \<open>field_definitions\<close> section, which
  is what the merge reads) is unchanged altogether.
\<close>

theorem merge_changes_only_semantics:
  "length (merge_discovery_with_config discovered knowledge) = length discovered
   \<and> (\<forall>i < length discovered.
        fst (merge_discovery_with_config discovered knowledge ! i) = fst (discovered ! i)
      \<and> (let f = snd (discovered ! i);
              f' = snd (merge_discovery_with_config discovered knowledge ! i)
         in name f' = name f \<and> data_type f' = data_type f
          \<and> completeness f' = completeness f
          \<and> unique_values f' = unique_values f \<and> sample_values f' = sample_values f
          \<and> (\<exists>p t r l. f' = f \<lparr> business_purpose := p, importance_tier := t,
                                business_rules := r, relationships := l \<rparr>)
          \<and> (section_or_empty (field_definitions knowledge) (fst (discovered ! i)) = None
                \<longrightarrow> f' = f)))"
proof -
  let ?m = "merge_discovery_with_config discovered knowledge"
  have len: "length ?m = length discovered"
    by (simp add: merge_discovery_with_config_def)
  have step: "fst (?m ! i) = fst (discovered ! i) \<and>
      (let f = snd (discovered ! i); f' = snd (?m ! i)
       in name f' = name f \<and> data_type f' = data_type f
        \<and> completeness f' = completeness f
        \<and> unique_values f' = unique_values f \<and> sample_values f' = sample_values f
        \<and> (\<exists>p t r l. f' = f \<lparr> business_purpose := p, importance_tier := t,
                              business_rules := r, relationships := l \<rparr>)
        \<and> (section_or_empty (field_definitions knowledge) (fst (discovered ! i)) = None
              \<longrightarrow> f' = f))" if i: "i < length discovered" for i
  proof (cases "discovered ! i")
    case (Pair n f)
    show ?thesis
    proof (cases "section_or_empty (field_definitions knowledge) n")
      case None
      have "?m ! i = (n, f)"
        using i Pair None by (simp add: merge_discovery_with_config_def)
      moreover have "\<exists>p t r l. f = f \<lparr> business_purpose := p, importance_tier := t,
                               business_rules := r, relationships := l \<rparr>"
      proof (intro exI)
        show "f = f \<lparr> business_purpose := business_purpose f,
                       importance_tier := importance_tier f,
                       business_rules := business_rules f,
                       relationships := relationships f \<rparr>"
          by simp
      qed
      ultimately show ?thesis using Pair None by (simp add: Let_def)
    next
      case (Some c)
      have "?m ! i = (n, enrich c f)"
        using i Pair Some by (simp add: merge_discovery_with_config_def)
      moreover have "\<exists>p t r l. enrich c f = f \<lparr> business_purpose := p, importance_tier := t,
                               business_rules := r, relationships := l \<rparr>"
        unfolding enrich_def by blast
      ultimately show ?thesis using Pair Some by (simp add: Let_def enrich_frame)
    qed
  qed
  show ?thesis using len step by blast
qed

theorem merge_changes_only_semantics_witness:
  "length (merge_discovery_with_config example_fields example_knowledge) = 3
   \<and> fst (merge_discovery_with_config example_fields example_knowledge ! 0) = ''SALES''
   \<and> completeness (snd (merge_discovery_with_config example_fields example_knowledge ! 0))
       = Fin (75 / 100)
   \<and> business_purpose (snd (merge_discovery_with_config example_fields example_knowledge ! 0))
       = ''Sales revenue''
   \<and> importance_tier (snd (merge_discovery_with_config example_fields example_knowledge ! 0))
       = 1
   \<and> snd (merge_discovery_with_config example_fields example_knowledge ! 2)
       = fresh_field ''REGION'' 1"
proof -
  let ?m = "merge_discovery_with_config example_fields example_knowledge"
  have v: "?m =
     [(''SALES'', (fresh_field ''SALES'' (75 / 100))
          \<lparr> business_purpose := ''Sales revenue'', importance_tier := 1,
            business_rules := [''non-negative''] \<rparr>),
      (''MARGIN'', fresh_field ''MARGIN'' (85 / 100)),
      (''REGION'', fresh_field ''REGION'' 1)]"
    by (simp add: merge_discovery_with_config_def example_fields_def example_knowledge_def
          fresh_field_def sales_definition_def section_or_empty_def enrich_def get_or_def)
  have l: "length example_fields = 3" by (simp add: example_fields_def)
  have e0: "example_fields ! 0 = (''SALES'', fresh_field ''SALES'' (75 / 100))"
    by (simp add: example_fields_def)
  have g: "length ?m = length example_fields
     \<and> fst (?m ! 0) = fst (example_fields ! 0)
     \<and> completeness (snd (?m ! 0)) = completeness (snd (example_fields ! 0))"
    using merge_changes_only_semantics [of example_fields example_knowledge] l
    by (simp add: Let_def)
  have c: "completeness (snd (?m ! 0)) = Fin (75 / 100)"
    using g e0 by (simp add: fresh_field_def)
  have p: "business_purpose (snd (?m ! 0)) = ''Sales revenue''
         \<and> importance_tier (snd (?m ! 0)) = 1
         \<and> snd (?m ! 2) = fresh_field ''REGION'' 1"
    by (simp add: v)
  show ?thesis using g l e0 c p by simp
qed

section \<open>Properties of the sources and of the exclude list\<close>

lemma all2E: "\<forall>x y. P x y \<Longrightarrow> P a b"
  by blast

lemma discover_files_warnings:
  "snd (discover_files r ps (acc, w)) = w @ filter (\<lambda>p. r p = None) ps"
  by (induction ps arbitrary: acc w) (auto split: option.splits)

lemma discover_files_fields:
  "fst (discover_files r ps (acc, w)) =
     fst (discover_files r (filter (\<lambda>p. r p \<noteq> None) ps) (acc, w'))"
  by (induction ps arbitrary: acc w w') (auto split: option.splits)

lemma discover_files_none:
  "\<forall>p \<in> set ps. r p = None \<Longrightarrow> discover_files r ps (acc, w) = (acc, w @ ps)"
  by (induction ps arbitrary: w) auto

text \<open>
  Claim C4, as the specification states it, fails: when every source is unusable the
  discovery of the agent does not fail, it returns.
\<close>

theorem all_sources_unusable_counterexample:
  "\<not> (\<forall>read_csv data_paths.
          (\<forall>p \<in> set data_paths. source_unusable (read_csv p))
             \<longrightarrow> isl (discover_fresh_schema read_csv data_paths))"
proof
  assume a: "\<forall>read_csv data_paths.
          (\<forall>p \<in> set data_paths. source_unusable (read_csv p))
             \<longrightarrow> isl (discover_fresh_schema read_csv data_paths)"
  have "(\<forall>p \<in> set [''missing.csv'']. source_unusable ((\<lambda>p. None) p))
          \<longrightarrow> isl (discover_fresh_schema (\<lambda>p. None) [''missing.csv''])"
    using a by (rule all2E)
  then have "isl (discover_fresh_schema (\<lambda>p. None) [''missing.csv''])"
    by (simp add: source_unusable_def)
  then show False by (simp add: discover_fresh_schema_def)
qed

text \<open>
  Claim C4, amended. The discovery of the agent never fails. A source whose read raises is
  logged and skipped while the discovery goes on with the others: the fields are those
  discovered from the readable sources alone, and the warnings name the unreadable ones in
  order. When every source is unreadable the result is the empty field mapping. Only the
  single-table \<open>_get_all_available_fields\<close> fails, with \<open>ValueError\<close>, when its table is
  absent or has no rows or no columns.
\<close>

theorem discovery_skips_unreadable_sources:
  "(\<exists>fs. discover_fresh_schema read_csv data_paths
            = Inr (fs, filter (\<lambda>p. read_csv p = None) data_paths)
        \<and> discover_fresh_schema read_csv (filter (\<lambda>p. read_csv p \<noteq> None) data_paths)
            = Inr (fs, []))
   \<and> ((\<forall>p \<in> set data_paths. read_csv p = None)
        \<longrightarrow> discover_fresh_schema read_csv data_paths = Inr ([], data_paths))
   \<and> get_all_available_fields self None = Inl ValueError
   \<and> (df_empty df \<longrightarrow> get_all_available_fields self (Some df) = Inl ValueError)"
proof -
  let ?ok = "filter (\<lambda>p. read_csv p \<noteq> None) data_paths"
  let ?fs = "fst (discover_files read_csv data_paths ([], []))"
  have a: "discover_fresh_schema read_csv data_paths
             = Inr (?fs, filter (\<lambda>p. read_csv p = None) data_paths)"
    using discover_files_warnings[of read_csv data_paths "[]" "[]"]
    by (simp add: discover_fresh_schema_def prod_eq_iff)
  have "filter (\<lambda>p. read_csv p = None) ?ok = []" by (auto simp: filter_empty_conv)
  then have w: "snd (discover_files read_csv ?ok ([], [])) = []"
    using discover_files_warnings[of read_csv ?ok "[]" "[]"] by simp
  have f: "fst (discover_files read_csv ?ok ([], [])) = ?fs"
    using discover_files_fields[of read_csv data_paths "[]" "[]" "[]"] by simp
  have b: "discover_fresh_schema read_csv ?ok = Inr (?fs, [])"
    using w f by (simp add: discover_fresh_schema_def prod_eq_iff)
  have c: "discover_fresh_schema read_csv data_paths = Inr ([], data_paths)"
    if "\<forall>p \<in> set data_paths. read_csv p = None"
    using discover_files_none[OF that, of "[]" "[]"] by (simp add: discover_fresh_schema_def)
  have d: "get_all_available_fields self None = Inl ValueError"
    by (simp add: get_all_available_fields_def)
  have e: "get_all_available_fields self (Some df) = Inl ValueError" if "df_empty df"
    using that by (simp add: get_all_available_fields_def)
  show ?thesis using a b c d e by blast
qed

theorem discovery_skips_unreadable_sources_witness:
  "discover_fresh_schema example_read_csv [''missing.csv'', ''sales.csv'']
     = Inr (example_discovered, [''missing.csv''])
   \<and> discover_fresh_schema example_read_csv [''sales.csv''] = Inr (example_discovered, [])
   \<and> discover_fresh_schema example_read_csv [''missing.csv'', ''gone.csv'']
       = Inr ([], [''missing.csv'', ''gone.csv''])
   \<and> df_empty header_only_frame
   \<and> get_all_available_fields created_excluded (Some header_only_frame) = Inl ValueError
   \<and> get_all_available_fields created_excluded None = Inl ValueError"
proof -
  have v: "discover_fresh_schema example_read_csv [''missing.csv'', ''sales.csv'']
             = Inr (example_discovered, [''missing.csv''])"
    by (simp add: discover_fresh_schema_def example_read_csv_def example_frame_def
          example_discovered_def field_statistics_def dict_has_def dropna_def
          isnull_sum_def nunique_def np_sub_def Let_def)
  have v2: "discover_fresh_schema example_read_csv [''sales.csv'']
             = Inr (example_discovered, [])"
    by (simp add: discover_fresh_schema_def example_read_csv_def example_frame_def
          example_discovered_def field_statistics_def dict_has_def dropna_def
          isnull_sum_def nunique_def np_sub_def Let_def)
  have n: "\<forall>p \<in> set [''missing.csv'', ''gone.csv'']. example_read_csv p = None"
    by (simp add: example_read_csv_def)
  have e: "df_empty header_only_frame"
    by (simp add: df_empty_def header_only_frame_def)
  show ?thesis
    using v v2 n e
      discovery_skips_unreadable_sources
        [of example_read_csv "[''missing.csv'', ''gone.csv'']" created_excluded
            header_only_frame]
    by blast
qed

lemma excluded_by_set:
  "set (excluded_by cols e) =
     {c \<in> set cols. c = e \<or> (e \<notin> set cols \<and> CHR ''*'' \<in> set e \<and> fnmatch c e)}"
  by (auto simp: excluded_by_def)

lemma excluded_set:
  "set (concat (map (excluded_by cols) excl)) =
     {c \<in> set cols. \<exists>e \<in> set excl. c = e
          \<or> (e \<notin> set cols \<and> CHR ''*'' \<in> set e \<and> fnmatch c e)}"
  by (auto simp: excluded_by_set)

lemma code_universe_is_spec_universe:
  assumes "wildcards_are_not_columns self df"
  shows "code_field_universe (column_names df) (exclude_list self)
           = spec_field_universe (column_names df) (exclude_list self)"
proof -
  have w: "\<forall>e \<in> set (exclude_list self). CHR ''*'' \<in> set e \<longrightarrow> e \<notin> set (column_names df)"
    using assms by (simp add: wildcards_are_not_columns_def list_all_iff)
  show ?thesis
    unfolding code_field_universe_def spec_field_universe_def matches_entry_def
    using w by blast
qed

text \<open>
  Claim C5, as the specification states it, fails: the exclude entry \<open>A*\<close> is itself a
  column name here, so the loop excludes that column and does not go on to match the
  entry as a wildcard; the column \<open>AB\<close> stays.
\<close>

theorem exclude_wildcard_counterexample:
  "\<not> (\<forall>self df r. get_all_available_fields self (Some df) = Inr r
         \<longrightarrow> set r = spec_field_universe (column_names df) (exclude_list self))"
proof
  assume a: "\<forall>self df r. get_all_available_fields self (Some df) = Inr r
         \<longrightarrow> set r = spec_field_universe (column_names df) (exclude_list self)"
  let ?self = "\<lparr> exclude_columns = Some [''A*''] \<rparr>"
  let ?df = "one_row_frame [''AB'', ''A*'', ''C'']"
  have r: "get_all_available_fields ?self (Some ?df) = Inr [''AB'', ''C'']"
    by code_simp
  have n: "''AB'' \<notin> spec_field_universe (column_names ?df) (exclude_list ?self)"
    by (simp add: spec_field_universe_def column_names_def exclude_list_def one_row_frame_def
         get_or_def matches_entry_def fnmatch_def)
  have e: "set [''AB'', ''C''] = spec_field_universe (column_names ?df) (exclude_list ?self)"
    using a r by blast
  have "''AB'' \<in> set [''AB'', ''C'']" by simp
  then have "''AB'' \<in> spec_field_universe (column_names ?df) (exclude_list ?self)"
    using e by blast
  then show False using n by blast
qed

text \<open>
  Claim C5, amended. For a table with at least one row and one column, the retained fields
  are, sorted and without repetition, the column names minus those that are an exclude
  entry themselves or that match, as \<open>fnmatch\<close> matches, an exclude entry that contains
  \<open>*\<close> and is not itself a column name. When no wildcard entry is itself a column name,
  that is the set of the specification. The witness is the example of the specification:
  \<open>CREATED_*\<close> excludes \<open>CREATED_AT\<close> and \<open>CREATED_BY\<close> and keeps \<open>UPDATED_AT\<close>.
\<close>

theorem exclude_list_field_universe:
  assumes "\<not> df_empty df"
  shows "\<exists>r. get_all_available_fields self (Some df) = Inr r
            \<and> sorted r \<and> distinct r
            \<and> set r = code_field_universe (column_names df) (exclude_list self)
            \<and> (wildcards_are_not_columns self df
                 \<longrightarrow> set r = spec_field_universe (column_names df) (exclude_list self))"
proof -
  let ?all = "remdups (map fst (columns df))"
  let ?excl = "remdups (get_or (exclude_columns self) [])"
  let ?excluded = "concat (map (excluded_by ?all) ?excl)"
  let ?r = "sort (filter (\<lambda>col. col \<notin> set ?excluded) ?all)"
  have r: "get_all_available_fields self (Some df) = Inr ?r"
    using assms by (simp add: get_all_available_fields_def Let_def)
  have s: "sorted ?r" by simp
  have d: "distinct ?r" by simp
  have "set ?r = {c \<in> set ?all. c \<notin> set ?excluded}" by auto
  also have "\<dots> = code_field_universe (column_names df) (exclude_list self)"
    unfolding excluded_set code_field_universe_def column_names_def exclude_list_def
    by auto
  finally have u: "set ?r = code_field_universe (column_names df) (exclude_list self)" .
  have v: "set ?r = spec_field_universe (column_names df) (exclude_list self)"
    if "wildcards_are_not_columns self df"
    using u code_universe_is_spec_universe[OF that] by simp
  show ?thesis using r s d u v by blast
qed

theorem exclude_list_field_universe_witness:
  "\<not> df_empty audit_columns_frame
   \<and> wildcards_are_not_columns created_excluded audit_columns_frame
   \<and> get_all_available_fields created_excluded (Some audit_columns_frame)
       = Inr [''SALES'', ''UPDATED_AT'']
   \<and> spec_field_universe (column_names audit_columns_frame) (exclude_list created_excluded)
       = {''SALES'', ''UPDATED_AT''}
   \<and> fnmatch ''CREATED_AT'' ''CREATED_*'' \<and> fnmatch ''CREATED_BY'' ''CREATED_*''
   \<and> \<not> fnmatch ''UPDATED_AT'' ''CREATED_*''"
proof -
  have h: "\<not> df_empty audit_columns_frame"
    by (simp add: df_empty_def audit_columns_frame_def one_row_frame_def)
  have w: "wildcards_are_not_columns created_excluded audit_columns_frame"
    by (simp add: wildcards_are_not_columns_def created_excluded_def exclude_list_def
          get_or_def column_names_def audit_columns_frame_def one_row_frame_def)
  have v: "get_all_available_fields created_excluded (Some audit_columns_frame)
             = Inr [''SALES'', ''UPDATED_AT'']"
    by code_simp
  obtain r where r: "get_all_available_fields created_excluded (Some audit_columns_frame) = Inr r"
      and u: "wildcards_are_not_columns created_excluded audit_columns_frame
                \<longrightarrow> set r = spec_field_universe (column_names audit_columns_frame)
                                (exclude_list created_excluded)"
    using exclude_list_field_universe [OF h, of created_excluded] by blast
  have "r = [''SALES'', ''UPDATED_AT'']" using r v by simp
  then have s: "spec_field_universe (column_names audit_columns_frame)
                   (exclude_list created_excluded) = {''SALES'', ''UPDATED_AT''}"
    using u w by auto
  have m: "fnmatch ''CREATED_AT'' ''CREATED_*'' \<and> fnmatch ''CREATED_BY'' ''CREATED_*''
           \<and> \<not> fnmatch ''UPDATED_AT'' ''CREATED_*''"
    by (simp add: fnmatch_def)
  show ?thesis using h w v s m by blast
qed

section \<open>Properties of the data filter\<close>

lemma all_finite_Cons: "all_finite (x # xs) = ((\<exists>r. x = Fin r) \<and> all_finite xs)"
  by (cases x) (simp_all add: all_finite_def)

lemma all_finite_notna: "all_finite xs \<Longrightarrow> notna xs = xs"
  by (induction xs) (auto simp: all_finite_Cons notna_def)

lemma fold_min_fin:
  "all_finite vs \<Longrightarrow>
     \<exists>m. fold (\<lambda>x m. if np_lt x m then x else m) vs (Fin a) = Fin m \<and> m \<le> a
          \<and> (\<forall>r. Fin r \<in> set vs \<longrightarrow> m \<le> r)"
proof (induction vs arbitrary: a)
  case Nil
  then show ?case by simp
next
  case (Cons v vs)
  then obtain r where v: "v = Fin r" and fin: "all_finite vs"
    by (auto simp: all_finite_Cons)
  let ?a = "if r < a then r else a"
  obtain m where m: "fold (\<lambda>x m. if np_lt x m then x else m) vs (Fin ?a) = Fin m"
      "m \<le> ?a" "\<forall>r. Fin r \<in> set vs \<longrightarrow> m \<le> r"
    using Cons.IH[OF fin, of ?a] by blast
  have "fold (\<lambda>x m. if np_lt x m then x else m) (v # vs) (Fin a) = Fin m"
    using m(1) v by (cases "r < a") simp_all
  moreover have "m \<le> a" using m(2) by (simp split: if_splits)
  moreover have "\<forall>r'. Fin r' \<in> set (v # vs) \<longrightarrow> m \<le> r'"
    using m(2,3) v by (auto split: if_splits)
  ultimately show ?case by blast
qed

lemma fold_max_fin:
  "all_finite vs \<Longrightarrow>
     \<exists>m. fold (\<lambda>x m. if np_lt m x then x else m) vs (Fin a) = Fin m \<and> a \<le> m
          \<and> (\<forall>r. Fin r \<in> set vs \<longrightarrow> r \<le> m)"
proof (induction vs arbitrary: a)
  case Nil
  then show ?case by simp
next
  case (Cons v vs)
  then obtain r where v: "v = Fin r" and fin: "all_finite vs"
    by (auto simp: all_finite_Cons)
  let ?a = "if a < r then r else a"
  obtain m where m: "fold (\<lambda>x m. if np_lt m x then x else m) vs (Fin ?a) = Fin m"
      "?a \<le> m" "\<forall>r. Fin r \<in> set vs \<longrightarrow> r \<le> m"
    using Cons.IH[OF fin, of ?a] by blast
  have "fold (\<lambda>x m. if np_lt m x then x else m) (v # vs) (Fin a) = Fin m"
    using m(1) v by (cases "a < r") simp_all
  moreover have "a \<le> m" using m(2) by (simp split: if_splits)
  moreover have "\<forall>r'. Fin r' \<in> set (v # vs) \<longrightarrow> r' \<le> m"
    using m(2,3) v by (auto split: if_splits)
  ultimately show ?case by blast
qed

lemma series_min_fin:
  assumes "all_finite col" "col \<noteq> []"
  shows "\<exists>m. series_min col = Fin m \<and> (\<forall>r. Fin r \<in> set col \<longrightarrow> m \<le> r)"
proof -
  obtain v vs where c: "col = v # vs" using assms(2) by (cases col) auto
  obtain a where v: "v = Fin a" and fin: "all_finite vs"
    using assms(1) c by (auto simp: all_finite_Cons)
  obtain m where m: "fold (\<lambda>x m. if np_lt x m then x else m) vs (Fin a) = Fin m"
      "m \<le> a" "\<forall>r. Fin r \<in> set vs \<longrightarrow> m \<le> r"
    using fold_min_fin[OF fin, of a] by blast
  have "series_min col = Fin m"
    using m(1) v c all_finite_notna[OF assms(1)] by (simp add: series_min_def)
  moreover have "\<forall>r. Fin r \<in> set col \<longrightarrow> m \<le> r" using m(2,3) c v by auto
  ultimately show ?thesis by blast
qed

lemma series_max_fin:
  assumes "all_finite col" "col \<noteq> []"
  shows "\<exists>m. series_max col = Fin m \<and> (\<forall>r. Fin r \<in> set col \<longrightarrow> r \<le> m)"
proof -
  obtain v vs where c: "col = v # vs" using assms(2) by (cases col) auto
  obtain a where v: "v = Fin a" and fin: "all_finite vs"
    using assms(1) c by (auto simp: all_finite_Cons)
  obtain m where m: "fold (\<lambda>x m. if np_lt m x then x else m) vs (Fin a) = Fin m"
      "a \<le> m" "\<forall>r. Fin r \<in> set vs \<longrightarrow> r \<le> m"
    using fold_max_fin[OF fin, of a] by blast
  have "series_max col = Fin m"
    using m(1) v c all_finite_notna[OF assms(1)] by (simp add: series_max_def)
  moreover have "\<forall>r. Fin r \<in> set col \<longrightarrow> r \<le> m" using m(2,3) c v by auto
  ultimately show ?thesis by blast
qed

lemma all_finite_mem: "all_finite col \<Longrightarrow> x \<in> set col \<Longrightarrow> \<exists>r. x = Fin r"
  by (induction col) (auto simp: all_finite_Cons)

text \<open>
  The normalization of a column of finite values: NaN for every row when the column is
  constant, a score between 0 and 1 for every row otherwise.
\<close>

lemma normalize_cases:
  assumes fin: "all_finite col" and x: "x \<in> set (min_max_normalize col)"
  shows "if series_max col = series_min col then x = NaN else in_unit_interval x"
proof -
  obtain v where v: "v \<in> set col"
      and xv: "x = np_div (np_sub v (series_min col)) (np_sub (series_max col) (series_min col))"
    using x by (auto simp: min_max_normalize_def)
  have ne: "col \<noteq> []" using v by auto
  obtain r where r: "v = Fin r" using all_finite_mem[OF fin v] by blast
  obtain mn where mn: "series_min col = Fin mn" "\<forall>r. Fin r \<in> set col \<longrightarrow> mn \<le> r"
    using series_min_fin[OF fin ne] by blast
  obtain mx where mx: "series_max col = Fin mx" "\<forall>r. Fin r \<in> set col \<longrightarrow> r \<le> mx"
    using series_max_fin[OF fin ne] by blast
  have lo: "mn \<le> r" using mn(2) v r by blast
  have hi: "r \<le> mx" using mx(2) v r by blast
  show ?thesis
  proof (cases "mx = mn")
    case True
    then have "r = mn" using lo hi by simp
    then show ?thesis using True xv r mn(1) mx(1) by (simp add: np_sub_def inf_of_sign_def)
  next
    case False
    then have pos: "0 < mx - mn" using lo hi by simp
    have "x = Fin ((r - mn) / (mx - mn))"
      using xv r mn(1) mx(1) False by (simp add: np_sub_def)
    moreover have "0 \<le> (r - mn) / (mx - mn)" using lo pos by simp
    moreover have "(r - mn) / (mx - mn) \<le> 1" using hi pos by simp
    ultimately show ?thesis using False mn(1) mx(1) by (simp add: in_unit_interval_def)
  qed
qed

text \<open>
  Claim C1 does not hold of the code. For a column of finite values the normalized score
  of every row is between 0 and 1 when the column has two different values (the lemma
  above), but when all values are equal, a single row included, the division is \<open>0/0\<close>
  and every row's score is NaN, not 0.5. The theorem evaluates the code on a constant
  column of three rows and on a single row.
\<close>

theorem normalize_constant_column_is_nan:
  "normalize_priority_score constant_priority = [NaN, NaN, NaN]
   \<and> normalize_volume_score constant_priority = [NaN, NaN, NaN]
   \<and> normalize_priority_score single_row = [NaN]
   \<and> normalize_volume_score single_row = [NaN]
   \<and> \<not> in_unit_interval NaN \<and> NaN \<noteq> Fin (5 / 10)"
  by (simp add: constant_priority_def single_row_def normalize_priority_score_def
        normalize_volume_score_def min_max_normalize_def series_min_def series_max_def
        notna_def get_column_def np_sub_def inf_of_sign_def in_unit_interval_def)

lemma map_of_replace:
  "map_of d col \<noteq> None \<Longrightarrow>
     map_of (map (\<lambda>(k, v). if k = col then (k, values) else (k, v)) d) col = Some values"
proof (induction d)
  case Nil
  then show ?case by simp
next
  case (Cons e d)
  obtain k v where e: "e = (k, v)" by (cases e)
  show ?case
  proof (cases "k = col")
    case True
    then show ?thesis by (simp add: e)
  next
    case False
    then have "map_of d col \<noteq> None" using Cons.prems e by simp
    then show ?thesis using Cons.IH False e by simp
  qed
qed

lemma get_set_column: "get_column (set_column col values data) col = Some values"
proof (cases "dict_has (series data) col")
  case True
  then show ?thesis
    using map_of_replace[of "series data" col "values"]
    by (simp add: get_column_def set_column_def dict_has_def)
next
  case False
  then have "map_of (series data) col = None" by (simp add: dict_has_def)
  then have "map_of (series data @ [(col, values)]) col = Some values"
    by (simp add: map_add_def)
  then show ?thesis using False by (simp add: get_column_def set_column_def)
qed

lemma index_set_column: "index (set_column col values data) = index data"
  by (simp add: set_column_def)

text \<open>
  Claim C2, as the specification states it, fails: with the weights 1, 1 and 1 the scoring
  runs and returns scores.
\<close>

theorem invalid_weights_counterexample:
  "\<not> (\<forall>draws self data criteria.
          \<not> weights_sum_to_one (weights_of self criteria)
            \<longrightarrow> isl (calculate_selection_scores draws self data criteria))"
proof
  assume a: "\<forall>draws self data criteria.
          \<not> weights_sum_to_one (weights_of self criteria)
            \<longrightarrow> isl (calculate_selection_scores draws self data criteria)"
  have n: "\<not> weights_sum_to_one (weights_of init_DataFilterAgent all_ones)"
    by (simp add: weights_sum_to_one_def weights_of_def all_ones_def no_criteria_def
          get_or_def)
  have "isl (calculate_selection_scores draws_a init_DataFilterAgent two_locations all_ones)"
    using a n by blast
  then show False
    by (simp add: calculate_selection_scores_def weights_of_def all_ones_def no_criteria_def
          get_or_def Let_def)
qed

text \<open>
  Claim C2, amended. The agent does not validate the selection weights. Whenever the
  weights in force (those of the criteria, else those of the configuration) have the three
  keys \<open>representative\<close>, \<open>priority_score\<close> and \<open>sales_volume\<close>, whatever their sum, the
  scoring runs, keeps the rows and gives each row the weighted sum of its three component
  scores. The weights of the built-in configuration, 0.4, 0.4 and 0.2, sum to 1.0.
\<close>

theorem weights_are_not_validated:
  assumes "map_of (weights_of self criteria) ''representative'' = Some w_rep"
      and "map_of (weights_of self criteria) ''priority_score'' = Some w_pri"
      and "map_of (weights_of self criteria) ''sales_volume'' = Some w_vol"
  shows "(\<exists>scored. calculate_selection_scores draws self data criteria = Inr scored
            \<and> index scored = index data
            \<and> get_column scored ''selection_score'' =
                Some (weighted_sum w_rep w_pri w_vol
                        (calculate_representative_score draws data)
                        (normalize_priority_score data) (normalize_volume_score data)))
         \<and> weights_sum_to_one (cfg_selection_weights load_config)"
proof -
  have d: "weights_sum_to_one (cfg_selection_weights load_config)"
    by (simp add: weights_sum_to_one_def load_config_def)
  show ?thesis
    using assms d
    by (simp add: calculate_selection_scores_def Let_def get_set_column index_set_column)
qed

theorem weights_are_not_validated_witness:
  "map_of (weights_of init_DataFilterAgent all_ones) ''representative'' = Some (Fin 1)
   \<and> map_of (weights_of init_DataFilterAgent all_ones) ''priority_score'' = Some (Fin 1)
   \<and> map_of (weights_of init_DataFilterAgent all_ones) ''sales_volume'' = Some (Fin 1)
   \<and> \<not> weights_sum_to_one (weights_of init_DataFilterAgent all_ones)
   \<and> (\<exists>scored.
         calculate_selection_scores draws_a init_DataFilterAgent two_locations all_ones
           = Inr scored
         \<and> index scored = [0, 1]
         \<and> get_column scored ''selection_score'' = Some [Fin (19 / 10), Fin (11 / 10)])"
proof -
  have w: "weights_of init_DataFilterAgent all_ones =
             [(''representative'', Fin 1), (''priority_score'', Fin 1),
              (''sales_volume'', Fin 1)]"
    by (simp add: weights_of_def all_ones_def no_criteria_def get_or_def)
  have k1: "map_of (weights_of init_DataFilterAgent all_ones) ''representative''
              = Some (Fin 1)"
    by (simp add: w)
  have k2: "map_of (weights_of init_DataFilterAgent all_ones) ''priority_score''
              = Some (Fin 1)"
    by (simp add: w)
  have k3: "map_of (weights_of init_DataFilterAgent all_ones) ''sales_volume''
              = Some (Fin 1)"
    by (simp add: w)
  have n: "\<not> weights_sum_to_one (weights_of init_DataFilterAgent all_ones)"
    by (simp add: w weights_sum_to_one_def)
  have v: "weighted_sum (Fin 1) (Fin 1) (Fin 1)
             (calculate_representative_score draws_a two_locations)
             (normalize_priority_score two_locations) (normalize_volume_score two_locations)
           = [Fin (19 / 10), Fin (11 / 10)]"
    by (simp add: weighted_sum_def calculate_representative_score_def
          normalize_priority_score_def normalize_volume_score_def min_max_normalize_def
          series_min_def series_max_def notna_def get_column_def len_def two_locations_def
          draws_a_def np_sub_def upt_rec)
  have i: "index two_locations = [0, 1]" by (simp add: two_locations_def)
  show ?thesis
    using k1 k2 k3 n
      weights_are_not_validated [OF k1 k2 k3, of draws_a two_locations]
    by (simp only: v i simp_thms)
qed

text \<open>
  Claim C3 does not hold of the code. The representativeness score is drawn from the
  random generator, which nothing seeds, so two runs on the same table and the same
  configuration see different draws; the theorem gives two runs that select different
  rows. The agent, the table and the criteria are the same in both; only the draws differ.
\<close>

theorem filter_data_depends_on_the_draws:
  "selected_rows (filter_data draws_a now init_DataFilterAgent two_locations top_one) = [0]
   \<and> selected_rows (filter_data draws_b now init_DataFilterAgent two_locations top_one) = [1]"
  by (simp add: two_locations_def top_one_def draws_a_def draws_b_def filter_data_def
        apply_basic_filters_def calculate_selection_scores_def
        select_representative_subset_def generate_selection_rationale_def nlargest_def
        nlargest_positions_def sort_desc_def take_rows_def drop_columns_def
        score_columns_def set_column_def get_column_def boolean_index_def mask_list_def
        normalize_priority_score_def normalize_volume_score_def min_max_normalize_def
        series_min_def series_max_def notna_def calculate_representative_score_def
        weights_of_def weighted_sum_def len_def dict_has_def get_or_def np_sub_def
        init_DataFilterAgent_def load_config_def no_criteria_def selected_rows_def Let_def
        upt_rec calculate_coverage_score_def calculate_efficiency_score_def)

end
